theory Spec2Isabelle
  imports Complex_Main
begin

section \<open>Data records of the controller module\<close>

text \<open>
  Instants returned by \<^verbatim>\<open>datetime.datetime.now()\<close> are abstract; the clock of the
  environment hands them out (see \<open>now\<close> below).
\<close>

type_synonym instant = nat

text \<open>\<^verbatim>\<open>class MagnetOutput(NamedTuple)\<close>: timestamp, field, voltage.\<close>

record MagnetOutput =
  timestamp :: instant
  field :: real
  voltage :: real

text \<open>
  The value of \<^verbatim>\<open>np.mean\<close> over an empty sample sequence is not a number, and
  the comparisons of the source are all false on it. Sample values themselves and the
  target field are finite numbers, computed exactly (\<open>real\<close>): rounding is outside
  this development. A power of a Python float that leaves the range of a double raises
  (see \<open>H2V\<close> below); on an \<^verbatim>\<open>np.float64\<close> it does not.
\<close>

datatype pyfloat = Fl real | NaN

text \<open>\<^verbatim>\<open>class MeasuredMagneticField(NamedTuple)\<close>: timestamp, field, hall_voltage.\<close>

record MeasuredMagneticField =
  m_timestamp :: instant
  m_field :: pyfloat
  hall_voltage :: pyfloat

text \<open>The four messages the controller logs.\<close>

datatype message =
    MsgInitZero          \<comment> \<open>\<^verbatim>\<open>"--- Initializing. Magnetic field is zero. ---"\<close>\<close>
  | MsgInitNotZero       \<comment> \<open>\<^verbatim>\<open>"Initial magnetic field is not zero."\<close>\<close>
  | MsgFieldSet real     \<comment> \<open>\<^verbatim>\<open>f"--- Magnetic field is set to {target_field} Oe. ---"\<close>\<close>
  | MsgInvalidVoltage    \<comment> \<open>\<^verbatim>\<open>"--- Output voltage is not valid. ---"\<close>\<close>

text \<open>A printed or saved line \<^verbatim>\<open>f"{datetime.datetime.now()}   {message}"\<close>.\<close>

type_synonym log_line = "instant \<times> message"

section \<open>The dataclass \<open>Controller\<close>\<close>

text \<open>The init fields of the dataclass, in the order of the class body.\<close>

record config =
  DAQ_ADDRESS :: string
  V_HALL_ADDRESS :: string
  V_OUT_ADDRESS :: string
  READ_SAMPLE_CLOCK :: int
  READ_SAMPLE_NUM :: int
  TIME_VOLTAGE_SWEEP :: real
  WRITE_SAMPLE_CLOCK :: real
  WRITE_ARRAY_LENGTH :: int
  V_OUT_MAX :: real
  V_OUT_MIN :: real
  V_IN_MAX :: real
  V_IN_MIN :: real
  LOG_PATH :: string
  print_log :: bool
  save_log :: bool

text \<open>
  The three fields with \<^verbatim>\<open>init=False\<close>: \<^verbatim>\<open>_log\<close>, \<^verbatim>\<open>_output_field\<close> and
  \<^verbatim>\<open>_measured_field\<close> (an identifier cannot start with an underscore here, hence
  the prefix \<open>u\<close>).
\<close>

record Controller = config +
  u_log :: "instant \<rightharpoonup> message"
  u_output_field :: "MagnetOutput option"
  u_measured_field :: "MeasuredMagneticField option"

text \<open>Python's \<^verbatim>\<open>int()\<close> on a float truncates towards zero.\<close>

definition py_int :: "real \<Rightarrow> int" where
  "py_int x = (if 0 \<le> x then \<lfloor>x\<rfloor> else \<lceil>x\<rceil>)"

text \<open>
  The defaults of the class body. \<^verbatim>\<open>WRITE_ARRAY_LENGTH\<close> is evaluated there, once,
  from the default clock \<^verbatim>\<open>100e3\<close> and the default sweep time \<^verbatim>\<open>10e-3\<close>.
\<close>

definition default_config :: config where
  "default_config =
     \<lparr> DAQ_ADDRESS = ''Dev1'',
       V_HALL_ADDRESS = ''ai0'',
       V_OUT_ADDRESS = ''ao0'',
       READ_SAMPLE_CLOCK = 1000,
       READ_SAMPLE_NUM = 100,
       TIME_VOLTAGE_SWEEP = 10 / 10 ^ 3,
       WRITE_SAMPLE_CLOCK = 100 * 10 ^ 3,
       WRITE_ARRAY_LENGTH = py_int (100 * 10 ^ 3 * (10 / 10 ^ 3)),
       V_OUT_MAX = 10,
       V_OUT_MIN = - 10,
       V_IN_MAX = 10,
       V_IN_MIN = - 10,
       LOG_PATH = ''./magnet_controller.log'',
       print_log = True,
       save_log = True \<rparr>"

text \<open>The object as the generated \<^verbatim>\<open>__init__\<close> leaves it, before \<^verbatim>\<open>__post_init__\<close>.\<close>

definition new_controller :: "config \<Rightarrow> Controller" where
  "new_controller cfg =
     config.extend cfg
       (Controller.fields Map.empty None None)"

section \<open>The environment: clock, DAQ driver, console and log file\<close>

text \<open>
  The calls the source makes on a \<^verbatim>\<open>nidaqmx.Task\<close>. The driver is not part of the
  repository: which of its calls raise, and which samples a read returns, are inputs of
  every operation.
\<close>

datatype daq_call =
    CreateTask       \<comment> \<open>\<^verbatim>\<open>nidaqmx.Task()\<close>\<close>
  | AddChan          \<comment> \<open>\<^verbatim>\<open>add_ai_voltage_chan\<close>, \<^verbatim>\<open>add_ao_voltage_chan\<close>\<close>
  | CfgSampClk       \<comment> \<open>\<^verbatim>\<open>timing.cfg_samp_clk_timing\<close>\<close>
  | ReadSamples      \<comment> \<open>\<^verbatim>\<open>task.read\<close>\<close>
  | WriteSamples     \<comment> \<open>\<^verbatim>\<open>task.write\<close>\<close>
  | WaitUntilDone    \<comment> \<open>\<^verbatim>\<open>task.wait_until_done\<close>\<close>
  | StopTask         \<comment> \<open>\<^verbatim>\<open>task.stop\<close>\<close>
  | CloseTask        \<comment> \<open>\<^verbatim>\<open>task.close\<close>\<close>

record daq =
  faults :: "daq_call \<Rightarrow> bool"
  samples :: "real list"

text \<open>What a driver call that returned has done to the hardware.\<close>

datatype hw_event =
    TaskCreated
  | AiChanAdded string real real
  | AoChanAdded string real real
  | ClockConfigured real
  | SamplesRead int
  | RampWritten "real list"
  | WaitedUntilDone
  | TaskStopped
  | TaskClosed

text \<open>
  The log file at \<^verbatim>\<open>LOG_PATH\<close>: its directory may be missing; otherwise the file is
  absent (\<open>None\<close>) or holds lines, and the process may or may not write there.
\<close>

datatype filesys =
    DirMissing
  | ReadOnly "log_line list option"
  | Writable "log_line list option"

record world =
  clock :: "nat \<Rightarrow> instant"
  ticks :: nat
  hw_trace :: "hw_event list"
  console :: "log_line list"
  fs :: filesys

datatype error =
    ValueError string     \<comment> \<open>the two \<^verbatim>\<open>raise ValueError(...)\<close> of the source\<close>
  | DaqError daq_call     \<comment> \<open>raised by the driver\<close>
  | FileNotFoundError
  | PermissionError
  | LinspaceValueError    \<comment> \<open>\<^verbatim>\<open>np.linspace\<close> with a negative number of samples\<close>
  | AttributeError        \<comment> \<open>\<^verbatim>\<open>None.voltage\<close>\<close>
  | OverflowError         \<comment> \<open>a power of a Python float out of the range of a double\<close>

section \<open>Sequencing with exceptions\<close>

type_synonym 'a action = "Controller \<times> world \<Rightarrow> (error + 'a) \<times> Controller \<times> world"

definition raise :: "error \<Rightarrow> 'a action" where
  "raise e s = (Inl e, s)"

definition thn :: "'a action \<Rightarrow> ('a \<Rightarrow> 'b action) \<Rightarrow> 'b action" where
  "thn f g s = (case f s of (Inl e, s') \<Rightarrow> (Inl e, s') | (Inr x, s') \<Rightarrow> g x s')"

text \<open>\<^verbatim>\<open>datetime.datetime.now()\<close>: the next reading of the clock.\<close>

definition now :: "instant action" where
  "now s = (case s of (c, w) \<Rightarrow> (Inr (clock w (ticks w)), c, w\<lparr>ticks := Suc (ticks w)\<rparr>))"

text \<open>One driver call: it raises, or it returns and its effect is on the trace.\<close>

definition daq_do :: "daq \<Rightarrow> daq_call \<Rightarrow> hw_event \<Rightarrow> unit action" where
  "daq_do d k ev s =
     (case s of (c, w) \<Rightarrow>
        if faults d k then (Inl (DaqError k), c, w)
        else (Inr (), c, w\<lparr>hw_trace := hw_trace w @ [ev]\<rparr>))"

section \<open>Conversion functions\<close>

text \<open>
  The expressions of \<^verbatim>\<open>Controller.H2V\<close> (line 102) and \<^verbatim>\<open>Controller.V2H\<close>
  (line 110): the value they have when every power is within the range of a double.
\<close>

definition H2V_value :: "real \<Rightarrow> real" where
  "H2V_value H =
     - 0.01268 + 0.00281 * H + 3.02608 / 10 ^ 10 * H ^ 2 - 1.5036 / 10 ^ 11 * H ^ 3
       - 1.66895 / 10 ^ 16 * H ^ 4 + 3.15376 / 10 ^ 18 * H ^ 5"

definition V2H_value :: "real \<Rightarrow> real" where
  "V2H_value V =
     - 0.05665 + 260.16273 * V - 2.1979 / 10 ^ 5 * V ^ 2 + 0.01858 * V ^ 3
       + 1.97225 / 10 ^ 4 * V ^ 4 - 2.33726 / 10 ^ 4 * V ^ 5"

text \<open>
  \<^verbatim>\<open>x ** n\<close> on a Python float raises \<^verbatim>\<open>OverflowError\<close> when the result is out of
  the range of a double: under rounding to nearest, when its magnitude reaches
  \<open>2^1024 - 2^970\<close>, half a unit in the last place above the largest double.
\<close>

definition overflow_threshold :: real where
  "overflow_threshold = 2 ^ 1024 - 2 ^ 970"

definition pow_overflows :: "real \<Rightarrow> nat \<Rightarrow> bool" where
  "pow_overflows x n = (overflow_threshold \<le> \<bar>x ^ n\<bar>)"

text \<open>
  \<^verbatim>\<open>Controller.H2V\<close>, target magnetic field (Oe) to output voltage (V), called on a
  Python float: the powers \<^verbatim>\<open>H**2\<close> to \<^verbatim>\<open>H**5\<close> are evaluated in this order,
  and the first that overflows raises. Products and sums do not raise, and with all
  four powers in range they stay in range.
\<close>

definition H2V :: "real \<Rightarrow> error + real" where
  "H2V H =
     (if pow_overflows H 2 \<or> pow_overflows H 3 \<or> pow_overflows H 4 \<or> pow_overflows H 5
      then Inl OverflowError
      else Inr (H2V_value H))"

text \<open>\<^verbatim>\<open>Controller.V2H\<close>, hall voltage (V) to magnetic field (Oe), on a Python float.\<close>

definition V2H :: "real \<Rightarrow> error + real" where
  "V2H V =
     (if pow_overflows V 2 \<or> pow_overflows V 3 \<or> pow_overflows V 4 \<or> pow_overflows V 5
      then Inl OverflowError
      else Inr (V2H_value V))"

text \<open>Arithmetic and comparison carry a not-a-number along.\<close>

fun fl_map :: "(real \<Rightarrow> real) \<Rightarrow> pyfloat \<Rightarrow> pyfloat" where
  "fl_map f (Fl x) = Fl (f x)"
| "fl_map f NaN = NaN"

fun abs_less :: "pyfloat \<Rightarrow> real \<Rightarrow> bool" where
  "abs_less (Fl x) b = (\<bar>x\<bar> < b)"
| "abs_less NaN b = False"

text \<open>\<^verbatim>\<open>np.mean(data)\<close>.\<close>

definition np_mean :: "real list \<Rightarrow> pyfloat" where
  "np_mean data = (if data = [] then NaN else Fl (sum_list data / real (length data)))"

text \<open>
  \<^verbatim>\<open>np.linspace(start, stop, num)\<close> with the default \<^verbatim>\<open>endpoint=True\<close>: a negative
  \<open>num\<close> raises; with \<open>div = num - 1\<close> positive the samples are
  \<open>start + i * (delta / div)\<close> and the last one is then overwritten by \<open>stop\<close>;
  otherwise they are \<open>start + i * delta\<close> for the \<open>num \<le> 1\<close> indices.
\<close>

definition np_linspace :: "real \<Rightarrow> real \<Rightarrow> int \<Rightarrow> error + real list" where
  "np_linspace start stop num =
     (if num < 0 then Inl LinspaceValueError
      else let n = nat num; delta = stop - start in
        Inr (if 1 < n
             then map (\<lambda>i. start + real i * (delta / real (n - 1))) [0..<n - 1] @ [stop]
             else map (\<lambda>i. start + real i * delta) [0..<n]))"

section \<open>Logging\<close>

text \<open>
  \<^verbatim>\<open>with open(LOG_PATH, mode, encoding="utf-8") as f: f.write(log_message + "\n")\<close>
  for the modes \<^verbatim>\<open>"a"\<close> and \<^verbatim>\<open>"w"\<close>. Either mode creates an absent file in an
  existing directory; \<^verbatim>\<open>"a"\<close> keeps the lines of an existing file, \<^verbatim>\<open>"w"\<close>
  truncates it. A missing directory raises \<^verbatim>\<open>FileNotFoundError\<close>.
\<close>

datatype open_mode = Append | Truncate

fun open_write :: "open_mode \<Rightarrow> log_line \<Rightarrow> filesys \<Rightarrow> error + filesys" where
  "open_write mode l DirMissing = Inl FileNotFoundError"
| "open_write mode l (ReadOnly f) = Inl PermissionError"
| "open_write Append l (Writable None) = Inr (Writable (Some [l]))"
| "open_write Append l (Writable (Some ls)) = Inr (Writable (Some (ls @ [l])))"
| "open_write Truncate l (Writable f) = Inr (Writable (Some [l]))"

text \<open>The \<^verbatim>\<open>try: ... except FileNotFoundError: ...\<close> of \<^verbatim>\<open>Controller.log\<close>.\<close>

definition save_line :: "log_line \<Rightarrow> filesys \<Rightarrow> error + filesys" where
  "save_line l f =
     (case open_write Append l f of
        Inl FileNotFoundError \<Rightarrow> open_write Truncate l f
      | Inl e \<Rightarrow> Inl e
      | Inr f' \<Rightarrow> Inr f')"

text \<open>\<^verbatim>\<open>Controller.log\<close> (named \<open>log_call\<close>: \<open>log\<close> is the logarithm).\<close>

definition log_call :: "message \<Rightarrow> unit action" where
  "log_call msg =
     thn now (\<lambda>t1.
     thn (\<lambda>(c, w). (Inr (), c\<lparr>u_log := (u_log c)(t1 \<mapsto> msg)\<rparr>, w)) (\<lambda>_.
     thn now (\<lambda>t2.
     thn (\<lambda>(c, w). (Inr (), c,
            if print_log c then w\<lparr>console := console w @ [(t2, msg)]\<rparr> else w)) (\<lambda>_.
     (\<lambda>(c, w).
        if save_log c then
          (case save_line (t2, msg) (fs w) of
             Inl e \<Rightarrow> (Inl e, c, w)
           | Inr f' \<Rightarrow> (Inr (), c, w\<lparr>fs := f'\<rparr>))
        else (Inr (), c, w))))))"

section \<open>Operations of the controller\<close>

text \<open>
  The property \<^verbatim>\<open>Controller.measured_field\<close>. The mean \<^verbatim>\<open>V\<close> is an
  \<^verbatim>\<open>np.float64\<close>, whose powers do not raise: \<^verbatim>\<open>self.V2H(V)\<close> is the value of the
  expression.
\<close>

definition measured_field :: "daq \<Rightarrow> MeasuredMagneticField action" where
  "measured_field d s =
     (case s of (self, w0) \<Rightarrow>
       thn (daq_do d CreateTask TaskCreated) (\<lambda>_.
       thn (daq_do d AddChan
              (AiChanAdded (DAQ_ADDRESS self @ ''/'' @ V_HALL_ADDRESS self)
                 (V_IN_MIN self) (V_IN_MAX self))) (\<lambda>_.
       thn (daq_do d CfgSampClk (ClockConfigured (real_of_int (READ_SAMPLE_CLOCK self)))) (\<lambda>_.
       thn (daq_do d ReadSamples (SamplesRead (READ_SAMPLE_NUM self))) (\<lambda>_.
       thn (daq_do d WaitUntilDone WaitedUntilDone) (\<lambda>_.
       thn (daq_do d StopTask TaskStopped) (\<lambda>_.
       thn (daq_do d CloseTask TaskClosed) (\<lambda>_.
       thn now (\<lambda>t.
         let V = np_mean (samples d);
             H = fl_map V2H_value V;
             m = \<lparr> m_timestamp = t, m_field = H, hall_voltage = V \<rparr>
         in (\<lambda>(c, w). (Inr m, c\<lparr>u_measured_field := Some m\<rparr>, w)))))))))) s)"

text \<open>The getter of the property \<^verbatim>\<open>Controller.output_field\<close>.\<close>

definition output_field :: "Controller \<Rightarrow> MagnetOutput option" where
  "output_field self = u_output_field self"

text \<open>\<^verbatim>\<open>self.output_field.voltage\<close>, an \<^verbatim>\<open>AttributeError\<close> on \<^verbatim>\<open>None\<close>.\<close>

definition output_voltage :: "real action" where
  "output_voltage s =
     (case s of (c, w) \<Rightarrow>
        (case output_field c of None \<Rightarrow> (Inl AttributeError, c, w)
         | Some out \<Rightarrow> (Inr (voltage out), c, w)))"

definition lift_result :: "error + 'a \<Rightarrow> 'a action" where
  "lift_result r s = (case r of Inl e \<Rightarrow> (Inl e, s) | Inr x \<Rightarrow> (Inr x, s))"

text \<open>
  The setter of the property \<^verbatim>\<open>Controller.output_field\<close>; the target field is a
  Python float.
\<close>

definition set_output_field :: "daq \<Rightarrow> real \<Rightarrow> unit action" where
  "set_output_field d target_field s =
     (case s of (self, w0) \<Rightarrow>
       thn (lift_result (H2V target_field)) (\<lambda>target_voltage.
       if target_voltage < V_OUT_MAX self \<and> target_voltage < V_IN_MAX self then
         thn (daq_do d CreateTask TaskCreated) (\<lambda>_.
         thn (daq_do d AddChan
                (AoChanAdded (DAQ_ADDRESS self @ ''/'' @ V_OUT_ADDRESS self)
                   (V_OUT_MIN self) (V_OUT_MAX self))) (\<lambda>_.
         thn (daq_do d CfgSampClk (ClockConfigured (WRITE_SAMPLE_CLOCK self))) (\<lambda>_.
         thn output_voltage (\<lambda>v0.
         thn (lift_result (np_linspace v0 target_voltage (WRITE_ARRAY_LENGTH self))) (\<lambda>v_out.
         thn (daq_do d WriteSamples (RampWritten v_out)) (\<lambda>_.
         thn (daq_do d WaitUntilDone WaitedUntilDone) (\<lambda>_.
         thn (daq_do d StopTask TaskStopped) (\<lambda>_.
         thn (daq_do d CloseTask TaskClosed) (\<lambda>_.
         thn now (\<lambda>t.
         thn (\<lambda>(c, w). (Inr (), c\<lparr>u_output_field :=
                Some \<lparr> timestamp = t, field = target_field, voltage = target_voltage \<rparr>\<rparr>, w)) (\<lambda>_.
         log_call (MsgFieldSet target_field))))))))))))
       else
         thn (log_call MsgInvalidVoltage) (\<lambda>_.
         raise (ValueError ''Output voltage is not valid.''))) s)"

text \<open>\<^verbatim>\<open>Controller.__post_init__\<close>.\<close>

definition post_init :: "daq \<Rightarrow> unit action" where
  "post_init d =
     thn (measured_field d) (\<lambda>current_field.
       if abs_less (m_field current_field) 10 then
         thn (log_call MsgInitZero) (\<lambda>_.
         thn now (\<lambda>t.
         (\<lambda>(c, w). (Inr (), c\<lparr>u_output_field :=
            Some \<lparr> timestamp = t, field = 0, voltage = 0 \<rparr>\<rparr>, w))))
       else
         thn (log_call MsgInitNotZero) (\<lambda>_.
         raise (ValueError ''Initial magnetic field is not zero.'')))"

text \<open>
  \<^verbatim>\<open>Controller(**cfg)\<close>: the result says whether the caller obtains the object; the
  object and the world are given in both cases, as the failed attempt left them.
\<close>

definition make_controller ::
  "config \<Rightarrow> daq \<Rightarrow> world \<Rightarrow> (error + unit) \<times> Controller \<times> world" where
  "make_controller cfg d w = post_init d (new_controller cfg, w)"

text \<open>
  The public operations on a constructed controller. An operation that raises leaves
  the object and the world as they were when the error left it; the caller may go on.
\<close>

datatype operation =
    GetMeasuredField daq
  | GetOutputField
  | SetOutputField daq real

fun perform :: "operation \<Rightarrow> Controller \<times> world \<Rightarrow> Controller \<times> world" where
  "perform (GetMeasuredField d) s = snd (measured_field d s)"
| "perform GetOutputField s = s"
| "perform (SetOutputField d H) s = snd (set_output_field d H s)"

fun perform_all :: "operation list \<Rightarrow> Controller \<times> world \<Rightarrow> Controller \<times> world" where
  "perform_all [] s = s"
| "perform_all (p # ps) s = perform_all ps (perform p s)"

section \<open>Notions used in the statements\<close>

text \<open>No driver call of a read session raises; no driver call at all raises.\<close>

definition read_ok :: "daq \<Rightarrow> bool" where
  "read_ok d = list_all (\<lambda>k. \<not> faults d k)
     [CreateTask, AddChan, CfgSampClk, ReadSamples, WaitUntilDone, StopTask, CloseTask]"

definition daq_ok :: "daq \<Rightarrow> bool" where
  "daq_ok d = list_all (\<lambda>k. \<not> faults d k)
     [CreateTask, AddChan, CfgSampClk, ReadSamples, WriteSamples, WaitUntilDone, StopTask,
      CloseTask]"

text \<open>The log file can be written, or saving is switched off.\<close>

fun writable :: "filesys \<Rightarrow> bool" where
  "writable (Writable f) = True"
| "writable f = False"

definition log_ok :: "'a config_scheme \<Rightarrow> world \<Rightarrow> bool" where
  "log_ok c w = (if save_log c then writable (fs w) else True)"

text \<open>The lines of the log file; none when the file does not exist.\<close>

fun file_lines :: "filesys \<Rightarrow> log_line list" where
  "file_lines (Writable (Some ls)) = ls"
| "file_lines (ReadOnly (Some ls)) = ls"
| "file_lines f = []"

text \<open>Sessions created and not closed, ramps written and reads made, along a trace.\<close>

fun open_sessions :: "hw_event list \<Rightarrow> int" where
  "open_sessions [] = 0"
| "open_sessions (TaskCreated # es) = open_sessions es + 1"
| "open_sessions (TaskClosed # es) = open_sessions es - 1"
| "open_sessions (e # es) = open_sessions es"

fun ramps :: "hw_event list \<Rightarrow> real list list" where
  "ramps [] = []"
| "ramps (RampWritten v # es) = v # ramps es"
| "ramps (e # es) = ramps es"

fun reads :: "hw_event list \<Rightarrow> nat" where
  "reads [] = 0"
| "reads (SamplesRead n # es) = Suc (reads es)"
| "reads (e # es) = reads es"

text \<open>The driver calls of a read that meets no error, and of a write that meets none.\<close>

definition ai_session :: "'a config_scheme \<Rightarrow> hw_event list" where
  "ai_session c =
     [TaskCreated,
      AiChanAdded (DAQ_ADDRESS c @ ''/'' @ V_HALL_ADDRESS c) (V_IN_MIN c) (V_IN_MAX c),
      ClockConfigured (real_of_int (READ_SAMPLE_CLOCK c)),
      SamplesRead (READ_SAMPLE_NUM c), WaitedUntilDone, TaskStopped, TaskClosed]"

definition ao_session :: "'a config_scheme \<Rightarrow> real list \<Rightarrow> hw_event list" where
  "ao_session c v_out =
     [TaskCreated,
      AoChanAdded (DAQ_ADDRESS c @ ''/'' @ V_OUT_ADDRESS c) (V_OUT_MIN c) (V_OUT_MAX c),
      ClockConfigured (WRITE_SAMPLE_CLOCK c),
      RampWritten v_out, WaitedUntilDone, TaskStopped, TaskClosed]"

text \<open>The errors raised between \<^verbatim>\<open>nidaqmx.Task()\<close> and \<^verbatim>\<open>task.close()\<close>.\<close>

fun raised_in_session :: "error + 'a \<Rightarrow> bool" where
  "raised_in_session (Inl (DaqError k)) = (k \<noteq> CreateTask)"
| "raised_in_session (Inl AttributeError) = True"
| "raised_in_session (Inl LinspaceValueError) = True"
| "raised_in_session r = False"

text \<open>The bound on the voltage of \<^verbatim>\<open>_output_field\<close>, when there is one.\<close>

definition voltage_inv :: "Controller \<Rightarrow> bool" where
  "voltage_inv c =
     (case u_output_field c of None \<Rightarrow> True
      | Some out \<Rightarrow> voltage out < V_OUT_MAX c \<and> voltage out < V_IN_MAX c)"


definition linear_ramp :: "real \<Rightarrow> real \<Rightarrow> nat \<Rightarrow> real list" where
  "linear_ramp a b n = map (\<lambda>i. a + real i * (b - a) / real (n - 1)) [0..<n]"

text \<open>Concrete environments: a driver that never raises, one that raises in one call.\<close>

definition quiet_daq :: "real list \<Rightarrow> daq" where
  "quiet_daq xs = \<lparr> faults = (\<lambda>k. False), samples = xs \<rparr>"

definition faulty_daq :: "daq_call \<Rightarrow> real list \<Rightarrow> daq" where
  "faulty_daq k0 xs = \<lparr> faults = (\<lambda>k. k = k0), samples = xs \<rparr>"

definition fresh_world :: "filesys \<Rightarrow> world" where
  "fresh_world f = \<lparr> clock = (\<lambda>n. n), ticks = 0, hw_trace = [], console = [], fs = f \<rparr>"

text \<open>The default configuration with the output clock halved, or the output maximum at 0 V.\<close>

definition half_rate_config :: config where
  "half_rate_config = default_config\<lparr>WRITE_SAMPLE_CLOCK := 50 * 10 ^ 3\<rparr>"

definition negative_range_config :: config where
  "negative_range_config = default_config\<lparr>V_OUT_MAX := 0\<rparr>"

text \<open>A controller as construction leaves it, the clock read at 0.\<close>

definition zero_output :: MagnetOutput where
  "zero_output = \<lparr> timestamp = 0, field = 0, voltage = 0 \<rparr>"

definition ready_controller :: "config \<Rightarrow> Controller" where
  "ready_controller cfg = (new_controller cfg)\<lparr>u_output_field := Some zero_output\<rparr>"

section \<open>Auxiliary facts\<close>

lemma daq_okD: "daq_ok d \<Longrightarrow> \<not> faults d k"
  by (cases k) (simp_all add: daq_ok_def)

lemma writable_cases: "writable f \<Longrightarrow> \<exists>g. f = Writable g"
  by (cases f) simp_all

lemma save_line_writable:
  "save_line l (Writable g) =
     Inr (Writable (Some ((case g of None \<Rightarrow> [] | Some ls \<Rightarrow> ls) @ [l])))"
  by (cases g) (simp_all add: save_line_def)

lemma save_line_error:
  "save_line l f = Inl e \<Longrightarrow> e = FileNotFoundError \<or> e = PermissionError"
  by (cases f) (simp_all add: save_line_writable, auto simp: save_line_def)

lemma np_linspace_error: "np_linspace a b n = Inl e \<Longrightarrow> e = LinspaceValueError"
  by (simp add: np_linspace_def Let_def split: if_splits)

lemma open_sessions_append:
  "open_sessions (xs @ ys) = open_sessions xs + open_sessions ys"
  by (induction xs rule: open_sessions.induct) simp_all

lemma ramps_append: "ramps (xs @ ys) = ramps xs @ ramps ys"
  by (induction xs rule: ramps.induct) simp_all

lemma reads_append: "reads (xs @ ys) = reads xs + reads ys"
  by (induction xs rule: reads.induct) simp_all

lemma ramps_ai_session [simp]: "ramps (ai_session c) = []"
  by (simp add: ai_session_def)

lemma new_controller_simps [simp]:
  "u_log (new_controller cfg) = Map.empty"
  "u_output_field (new_controller cfg) = None"
  "u_measured_field (new_controller cfg) = None"
  "ai_session (new_controller cfg) = ai_session cfg"
  "ao_session (new_controller cfg) v = ao_session cfg v"
  "log_ok (new_controller cfg) w = log_ok cfg w"
  "V_OUT_MAX (new_controller cfg) = V_OUT_MAX cfg"
  "V_IN_MAX (new_controller cfg) = V_IN_MAX cfg"
  "WRITE_ARRAY_LENGTH (new_controller cfg) = WRITE_ARRAY_LENGTH cfg"
  "save_log (new_controller cfg) = save_log cfg"
  "print_log (new_controller cfg) = print_log cfg"
  by (simp_all add: new_controller_def config.extend_def Controller.fields_def ai_session_def
        ao_session_def log_ok_def)

text \<open>\<^verbatim>\<open>Controller.log\<close>, step by step.\<close>

lemma log_call_unfold:
  "log_call msg (c, w) =
     (let t1 = clock w (ticks w); t2 = clock w (Suc (ticks w));
          c' = c\<lparr>u_log := (u_log c)(t1 \<mapsto> msg)\<rparr>;
          w1 = w\<lparr>ticks := Suc (Suc (ticks w))\<rparr>;
          w2 = (if print_log c then w1\<lparr>console := console w @ [(t2, msg)]\<rparr> else w1)
      in if save_log c then
           (case save_line (t2, msg) (fs w) of
              Inl e \<Rightarrow> (Inl e, c', w2)
            | Inr f' \<Rightarrow> (Inr (), c', w2\<lparr>fs := f'\<rparr>))
         else (Inr (), c', w2))"
  by (simp add: log_call_def thn_def now_def Let_def split: sum.splits)

lemma log_call_ok:
  assumes "log_ok c w"
  shows "\<exists>w'. log_call msg (c, w) =
            (Inr (), c\<lparr>u_log := (u_log c)(clock w (ticks w) \<mapsto> msg)\<rparr>, w')
     \<and> hw_trace w' = hw_trace w \<and> clock w' = clock w \<and> ticks w' = Suc (Suc (ticks w))"
proof (cases "save_log c")
  case True
  with assms obtain g where "fs w = Writable g"
    using writable_cases by (auto simp: log_ok_def)
  with True show ?thesis
    by (simp add: log_call_unfold Let_def save_line_writable)
next
  case False
  then show ?thesis by (simp add: log_call_unfold Let_def)
qed

lemma read_okD:
  "read_ok d \<Longrightarrow> k \<noteq> WriteSamples \<Longrightarrow> \<not> faults d k"
  by (cases k) (simp_all add: read_ok_def)

lemma daq_ok_read_ok: "daq_ok d \<Longrightarrow> read_ok d"
  by (simp add: daq_ok_def read_ok_def)

text \<open>A read on which no driver call raises.\<close>

lemma measured_read_ok:
  assumes "read_ok d"
  shows "measured_field d (c, w) =
     (let m = \<lparr> m_timestamp = clock w (ticks w),
                m_field = fl_map V2H_value (np_mean (samples d)),
                hall_voltage = np_mean (samples d) \<rparr>
      in (Inr m, c\<lparr>u_measured_field := Some m\<rparr>,
          w\<lparr>hw_trace := hw_trace w @ ai_session c, ticks := Suc (ticks w)\<rparr>))"
  using assms
  by (simp add: measured_field_def thn_def daq_do_def now_def Let_def read_okD ai_session_def)

lemma measured_ok:
  assumes "daq_ok d"
  shows "measured_field d (c, w) =
     (let m = \<lparr> m_timestamp = clock w (ticks w),
                m_field = fl_map V2H_value (np_mean (samples d)),
                hall_voltage = np_mean (samples d) \<rparr>
      in (Inr m, c\<lparr>u_measured_field := Some m\<rparr>,
          w\<lparr>hw_trace := hw_trace w @ ai_session c, ticks := Suc (ticks w)\<rparr>))"
  using measured_read_ok [OF daq_ok_read_ok [OF assms]] .

text \<open>A read on which a driver call raises: nothing is stored, the clock is not read.\<close>

lemma measured_fault:
  assumes "\<not> read_ok d"
  shows "\<exists>k w'. measured_field d (c, w) = (Inl (DaqError k), c, w')
     \<and> k \<noteq> WriteSamples \<and> faults d k
     \<and> clock w' = clock w \<and> ticks w' = ticks w \<and> fs w' = fs w \<and> console w' = console w
     \<and> ramps (hw_trace w') = ramps (hw_trace w)
     \<and> reads (hw_trace w') \<le> Suc (reads (hw_trace w))
     \<and> (k \<in> {CreateTask, AddChan, CfgSampClk, ReadSamples} \<longrightarrow>
           reads (hw_trace w') = reads (hw_trace w))"
  using assms
  by (auto simp: read_ok_def measured_field_def thn_def daq_do_def now_def Let_def
        ramps_append reads_append)

text \<open>Powers of a float of magnitude at most \<open>10^61\<close> do not overflow.\<close>

lemma small_no_overflow:
  assumes "\<bar>x\<bar> \<le> 10 ^ 61" and "n \<le> 5"
  shows "\<not> pow_overflows x n"
proof -
  have "\<bar>x ^ n\<bar> = \<bar>x\<bar> ^ n" by (simp add: power_abs)
  also have "\<dots> \<le> (10 ^ 61) ^ n"
    using assms(1) by (intro power_mono) simp_all
  also have "\<dots> \<le> (10 ^ 61 :: real) ^ 5"
    using assms(2) by (intro power_increasing) simp_all
  also have "\<dots> < overflow_threshold"
    by (simp add: overflow_threshold_def)
  finally show ?thesis by (simp add: pow_overflows_def)
qed

lemma H2V_small: "\<bar>H\<bar> \<le> 10 ^ 61 \<Longrightarrow> H2V H = Inr (H2V_value H)"
  by (simp add: H2V_def small_no_overflow)

lemma V2H_small: "\<bar>V\<bar> \<le> 10 ^ 61 \<Longrightarrow> V2H V = Inr (V2H_value V)"
  by (simp add: V2H_def small_no_overflow)




lemma H2V_error: "H2V H = Inl e \<Longrightarrow> e = OverflowError"
  by (simp add: H2V_def split: if_splits)

section \<open>Reading the measured field\<close>

lemma log_call_result:
  "\<exists>r w'. log_call msg (c, w) =
             (r, c\<lparr>u_log := (u_log c)(clock w (ticks w) \<mapsto> msg)\<rparr>, w')
     \<and> hw_trace w' = hw_trace w \<and> clock w' = clock w \<and> ticks w' = Suc (Suc (ticks w))
     \<and> r \<in> {Inr (), Inl FileNotFoundError, Inl PermissionError}"
  by (auto simp: log_call_unfold Let_def split: sum.splits dest: save_line_error)

text \<open>
  Claim C6. For every sequence of samples that the hardware read returns (no driver call
  raising), the accessor returns the record made of the current clock reading, the field
  converted from the mean voltage by the expression of \<open>V2H\<close>, and the mean voltage;
  it stores that same record in \<^verbatim>\<open>_measured_field\<close>. For a non-empty sequence the
  mean voltage is the sum of the samples divided by their number.
\<close>

theorem measured_field_mean:
  assumes "daq_ok d"
  shows "case measured_field d (c, w) of (r, c', w') \<Rightarrow>
     r = Inr \<lparr> m_timestamp = clock w (ticks w),
               m_field = fl_map V2H_value (np_mean (samples d)),
               hall_voltage = np_mean (samples d) \<rparr>
   \<and> map_option Inr (u_measured_field c') = Some r
   \<and> (samples d \<noteq> [] \<longrightarrow>
        np_mean (samples d) = Fl (sum_list (samples d) / real (length (samples d)))
      \<and> fl_map V2H_value (np_mean (samples d))
          = Fl (V2H_value (sum_list (samples d) / real (length (samples d)))))"
  using measured_ok [OF assms, of c w] by (simp add: Let_def np_mean_def)

text \<open>Samples of 1 V, 2 V and 3 V: the record holds 2 V and \<open>V2H_value 2\<close>, returned and stored.\<close>

theorem measured_field_mean_witness:
  "daq_ok (quiet_daq [1, 2, 3]) \<and> samples (quiet_daq [1, 2, 3]) \<noteq> []
   \<and> fst (measured_field (quiet_daq [1, 2, 3])
        (ready_controller default_config, fresh_world (Writable None)))
     = Inr \<lparr> m_timestamp = 0, m_field = Fl (V2H_value 2), hall_voltage = Fl 2 \<rparr>
   \<and> u_measured_field (fst (snd (measured_field (quiet_daq [1, 2, 3])
        (ready_controller default_config, fresh_world (Writable None)))))
     = Some \<lparr> m_timestamp = 0, m_field = Fl (V2H_value 2), hall_voltage = Fl 2 \<rparr>"
proof -
  have a: "daq_ok (quiet_daq [1, 2, 3])"
    by (simp add: daq_ok_def quiet_daq_def)
  show ?thesis
    using a measured_field_mean [OF a, where c = "ready_controller default_config"
        and w = "fresh_world (Writable None)"]
    by (auto simp add: quiet_daq_def fresh_world_def split: prod.splits)
qed


section \<open>Ramps, and operations that meet no error\<close>

lemma np_linspace_length:
  "0 \<le> n \<Longrightarrow> \<exists>v. np_linspace a b n = Inr v \<and> length v = nat n"
  by (auto simp: np_linspace_def Let_def)

lemma linear_ramp_length [simp]: "length (linear_ramp a b n) = n"
  by (simp add: linear_ramp_def)

lemma linear_ramp_hd: "0 < n \<Longrightarrow> hd (linear_ramp a b n) = a"
  by (simp add: linear_ramp_def hd_map upt_conv_Cons)

lemma linear_ramp_last: "2 \<le> n \<Longrightarrow> last (linear_ramp a b n) = b"
proof -
  assume n: "2 \<le> n"
  then have "[0..<n] = [0..<n - 1] @ [n - 1]"
    by (metis One_nat_def Suc_pred upt_Suc_append less_le_trans zero_less_numeral le0)
  then have "last (linear_ramp a b n) = a + real (n - 1) * (b - a) / real (n - 1)"
    by (simp add: linear_ramp_def)
  with n show ?thesis by simp
qed

lemma np_linspace_linear:
  assumes "2 \<le> n"
  shows "np_linspace a b n = Inr (linear_ramp a b (nat n))"
proof -
  let ?m = "nat n"
  let ?g = "\<lambda>i. a + real i * (b - a) / real (?m - 1)"
  from assms have m: "2 \<le> ?m" by simp
  then have upt: "[0..<?m] = [0..<?m - 1] @ [?m - 1]"
    by (metis One_nat_def Suc_pred upt_Suc_append less_le_trans zero_less_numeral le0)
  have "linear_ramp a b ?m = map ?g ([0..<?m - 1] @ [?m - 1])"
    unfolding linear_ramp_def using upt by simp
  also have "\<dots> = map ?g [0..<?m - 1] @ [b]"
    using m by simp
  finally have "linear_ramp a b ?m = map ?g [0..<?m - 1] @ [b]" .
  with assms m show ?thesis
    by (simp add: np_linspace_def Let_def)
qed

lemma np_linspace_one: "np_linspace a b 1 = Inr [a]"
  by (simp add: np_linspace_def Let_def)

lemma np_linspace_zero: "np_linspace a b 0 = Inr []"
  by (simp add: np_linspace_def Let_def)

lemma ramps_ao_session [simp]: "ramps (ao_session c v) = [v]"
  by (simp add: ao_session_def)

lemma set_output_field_ok:
  assumes "daq_ok d" and "u_output_field c = Some out"
    and "H2V H = Inr v" and "v < V_OUT_MAX c" and "v < V_IN_MAX c"
    and "np_linspace (voltage out) v (WRITE_ARRAY_LENGTH c) = Inr v_out"
  shows "\<exists>r w'. set_output_field d H (c, w) =
            (r, c\<lparr>u_log := (u_log c)(clock w (Suc (ticks w)) \<mapsto> MsgFieldSet H),
                  u_output_field :=
                    Some \<lparr> timestamp = clock w (ticks w), field = H, voltage = v \<rparr>\<rparr>, w')
     \<and> hw_trace w' = hw_trace w @ ao_session c v_out
     \<and> r \<in> {Inr (), Inl FileNotFoundError, Inl PermissionError}"
proof -
  let ?c1 = "c\<lparr>u_output_field :=
                Some \<lparr> timestamp = clock w (ticks w), field = H, voltage = v \<rparr>\<rparr>"
  let ?w1 = "w\<lparr>hw_trace := hw_trace w @ ao_session c v_out, ticks := Suc (ticks w)\<rparr>"
  have "set_output_field d H (c, w) = log_call (MsgFieldSet H) (?c1, ?w1)"
    using assms
    by (simp add: set_output_field_def thn_def daq_do_def now_def Let_def daq_okD
          output_voltage_def output_field_def lift_result_def ao_session_def)
  with log_call_result [of "MsgFieldSet H" ?c1 ?w1] show ?thesis
    by auto
qed



lemma default_array_length [simp]: "WRITE_ARRAY_LENGTH default_config = 1000"
  by (simp add: default_config_def py_int_def)

lemma make_controller_ok:
  assumes "daq_ok d" and "log_ok cfg w"
    and "abs_less (fl_map V2H_value (np_mean (samples d))) 10"
  shows "\<exists>w'. make_controller cfg d w =
            (Inr (), (new_controller cfg)\<lparr>
               u_measured_field :=
                 Some \<lparr> m_timestamp = clock w (ticks w),
                        m_field = fl_map V2H_value (np_mean (samples d)),
                        hall_voltage = np_mean (samples d) \<rparr>,
               u_log := [clock w (ticks w + 1) \<mapsto> MsgInitZero],
               u_output_field :=
                 Some \<lparr> timestamp = clock w (ticks w + 3), field = 0, voltage = 0 \<rparr>\<rparr>, w')
     \<and> hw_trace w' = hw_trace w @ ai_session cfg \<and> clock w' = clock w
     \<and> ticks w' = ticks w + 4"
proof -
  let ?m = "\<lparr> m_timestamp = clock w (ticks w),
              m_field = fl_map V2H_value (np_mean (samples d)),
              hall_voltage = np_mean (samples d) \<rparr>"
  let ?c1 = "(new_controller cfg)\<lparr>u_measured_field := Some ?m\<rparr>"
  let ?w1 = "w\<lparr>hw_trace := hw_trace w @ ai_session cfg, ticks := Suc (ticks w)\<rparr>"
  have m: "measured_field d (new_controller cfg, w) = (Inr ?m, ?c1, ?w1)"
    using measured_ok [OF assms(1), of "new_controller cfg" w] by (simp add: Let_def)
  have lok: "log_ok ?c1 ?w1"
    using assms(2) by (simp add: log_ok_def)
  from log_call_ok [OF lok, of MsgInitZero] obtain w2 where
    "log_call MsgInitZero (?c1, ?w1) =
       (Inr (), ?c1\<lparr>u_log := (u_log ?c1)(clock ?w1 (ticks ?w1) \<mapsto> MsgInitZero)\<rparr>, w2)"
    "hw_trace w2 = hw_trace ?w1" "clock w2 = clock ?w1" "ticks w2 = Suc (Suc (ticks ?w1))"
    by blast
  with assms(3) m show ?thesis
    by (simp add: make_controller_def post_init_def thn_def now_def numeral_3_eq_3)
qed

text \<open>
  Claim C3, as stated, fails: the number of samples is the field
  \<^verbatim>\<open>WRITE_ARRAY_LENGTH\<close>, which the class body computes once from the default clock
  and sweep time. With the output clock configured to 50 kHz and everything else left
  at its default, \<open>int(rate * duration)\<close> is 500, yet the first ramp written after
  construction has 1000 samples.
\<close>


section \<open>The log file\<close>

lemma open_write_not_found:
  "open_write Append l f = Inl FileNotFoundError \<longleftrightarrow> f = DirMissing"
  by (cases "(Append, l, f)" rule: open_write.cases) simp_all

text \<open>
  Claim C8, as stated, fails: opening for append creates an absent file, so the append
  fails as not found only when the directory of the path is missing; the fallback then
  opens the same path for writing, which fails the same way, and the log call raises.
\<close>

theorem log_raises_when_path_missing:
  "open_write Append (1, MsgInvalidVoltage) (fs (fresh_world DirMissing))
     = Inl FileNotFoundError
   \<and> save_log (ready_controller default_config)
   \<and> fst (log_call MsgInvalidVoltage (ready_controller default_config, fresh_world DirMissing))
     = Inl FileNotFoundError
   \<and> fs (snd (snd
       (log_call MsgInvalidVoltage (ready_controller default_config, fresh_world DirMissing))))
     = DirMissing"
  by (simp add: log_call_unfold Let_def fresh_world_def ready_controller_def default_config_def
        save_line_def)

text \<open>
  Claim C8, amended. Every log call records the message in the in-memory log under the
  first clock reading of the call, also when it raises, and never loses a line the file
  already holds. With saving enabled: an absent file in a writable directory is created
  by the append and holds the new line; an existing file gets the line after its earlier
  lines; when the append fails as not found, the directory is missing, the fallback fails
  too and the call raises \<^verbatim>\<open>FileNotFoundError\<close>, the file system unchanged; a path
  that cannot be written raises \<^verbatim>\<open>PermissionError\<close>. With saving disabled the call
  returns and leaves the file alone.
\<close>

theorem log_call_file_and_memory:
  "case log_call msg (c, w) of (r, c', w') \<Rightarrow>
     u_log c' = (u_log c)(clock w (ticks w) \<mapsto> msg)
   \<and> take (length (file_lines (fs w))) (file_lines (fs w')) = file_lines (fs w)
   \<and> (save_log c \<longrightarrow>
        (fs w = Writable None \<longrightarrow>
           r = Inr () \<and> fs w' = Writable (Some [(clock w (Suc (ticks w)), msg)]))
      \<and> (\<forall>ls. fs w = Writable (Some ls) \<longrightarrow>
           r = Inr () \<and> fs w' = Writable (Some (ls @ [(clock w (Suc (ticks w)), msg)])))
      \<and> (open_write Append (clock w (Suc (ticks w)), msg) (fs w) = Inl FileNotFoundError \<longrightarrow>
           fs w = DirMissing \<and> r = Inl FileNotFoundError \<and> fs w' = fs w)
      \<and> (\<forall>f. fs w = ReadOnly f \<longrightarrow> r = Inl PermissionError \<and> fs w' = fs w))
   \<and> (\<not> save_log c \<longrightarrow> r = Inr () \<and> fs w' = fs w)"
proof (cases "fs w")
  case DirMissing
  then show ?thesis
    by (simp add: log_call_unfold Let_def save_line_def)
next
  case (ReadOnly f)
  then show ?thesis
    by (simp add: log_call_unfold Let_def save_line_def)
next
  case (Writable f)
  then show ?thesis
    by (cases f) (simp_all add: log_call_unfold Let_def save_line_writable)
qed

text \<open>
  The default configuration: an absent file, a file with one line, a directory that
  cannot be written, a missing directory, and saving switched off.
\<close>

theorem log_call_file_and_memory_witness:
  "save_log (ready_controller default_config)
   \<and> fs (fresh_world (Writable None)) = Writable None
   \<and> log_call MsgInitZero (ready_controller default_config, fresh_world (Writable None))
     = (Inr (), (ready_controller default_config)\<lparr>u_log := [0 \<mapsto> MsgInitZero]\<rparr>,
        (fresh_world (Writable (Some [(1, MsgInitZero)])))
          \<lparr>ticks := 2, console := [(1, MsgInitZero)]\<rparr>)
   \<and> fs (fresh_world (Writable (Some [(5, MsgInitNotZero)])))
       = Writable (Some [(5, MsgInitNotZero)])
   \<and> fs (snd (snd (log_call MsgInitZero
        (ready_controller default_config, fresh_world (Writable (Some [(5, MsgInitNotZero)]))))))
     = Writable (Some [(5, MsgInitNotZero), (1, MsgInitZero)])
   \<and> fs (fresh_world (ReadOnly None)) = ReadOnly None
   \<and> fst (log_call MsgInitZero (ready_controller default_config, fresh_world (ReadOnly None)))
     = Inl PermissionError
   \<and> open_write Append (1, MsgInitZero) (fs (fresh_world DirMissing)) = Inl FileNotFoundError
   \<and> fst (log_call MsgInitZero (ready_controller default_config, fresh_world DirMissing))
     = Inl FileNotFoundError
   \<and> \<not> save_log ((ready_controller default_config)\<lparr>save_log := False\<rparr>)
   \<and> fst (log_call MsgInitZero
        ((ready_controller default_config)\<lparr>save_log := False\<rparr>, fresh_world DirMissing))
     = Inr ()"
proof -
  let ?c = "ready_controller default_config"
  have k: "save_log ?c" "print_log ?c" "u_log ?c = Map.empty"
    by (simp_all add: ready_controller_def default_config_def)
  have first: "log_call MsgInitZero (?c, fresh_world (Writable None))
     = (Inr (), ?c\<lparr>u_log := [0 \<mapsto> MsgInitZero]\<rparr>,
        (fresh_world (Writable (Some [(1, MsgInitZero)])))
          \<lparr>ticks := 2, console := [(1, MsgInitZero)]\<rparr>)"
    by (simp add: log_call_unfold Let_def k save_line_writable fresh_world_def)
  show ?thesis
    using k first
      log_call_file_and_memory [where msg = MsgInitZero and c = ?c
        and w = "fresh_world (Writable (Some [(5, MsgInitNotZero)]))"]
      log_call_file_and_memory [where msg = MsgInitZero and c = ?c
        and w = "fresh_world (ReadOnly None)"]
      log_call_file_and_memory [where msg = MsgInitZero and c = ?c
        and w = "fresh_world DirMissing"]
      log_call_file_and_memory [where msg = MsgInitZero and c = "?c\<lparr>save_log := False\<rparr>"
        and w = "fresh_world DirMissing"]
    by (simp add: fresh_world_def split: prod.splits)
qed

section \<open>The synthetic zero record\<close>

lemma np_linspace_hd:
  assumes "0 < n" and "np_linspace a b n = Inr v"
  shows "hd v = a"
proof (cases "n = 1")
  case True
  with assms show ?thesis by (auto simp add: np_linspace_one)
next
  case False
  with assms have "2 \<le> n" by simp
  with assms show ?thesis
    using np_linspace_linear [of n a b] linear_ramp_hd [of "nat n" a b] by auto
qed

lemma make_controller_Inr:
  assumes "make_controller cfg d w = (Inr (), c, w')"
  shows "u_output_field c =
           Some \<lparr> timestamp = clock w (ticks w + 3), field = 0, voltage = 0 \<rparr>
       \<and> V_OUT_MAX c = V_OUT_MAX cfg \<and> V_IN_MAX c = V_IN_MAX cfg
       \<and> WRITE_ARRAY_LENGTH c = WRITE_ARRAY_LENGTH cfg"
  using assms
  by (auto simp: make_controller_def post_init_def thn_def measured_field_def daq_do_def
        now_def Let_def log_call_unfold raise_def numeral_3_eq_3
      split: if_splits sum.splits prod.splits)

text \<open>
  Claim C9. \<open>H2V 0\<close> is -0.01268, not 0. The record that a successful construction
  leaves in \<^verbatim>\<open>_output_field\<close> has field 0 and voltage 0, so its voltage is not
  \<open>H2V\<close> of its field; and the first ramp written after construction (valid target, no
  driver call raising, at least one sample) starts at 0 V, not at \<open>H2V 0\<close>.
\<close>

theorem zero_record_off_calibration:
  assumes "make_controller cfg d0 w0 = (Inr (), c, w)"
  shows "H2V 0 = Inr (- 0.01268) \<and> H2V 0 \<noteq> Inr 0
   \<and> (\<exists>out. u_output_field c = Some out \<and> field out = 0 \<and> voltage out = 0
          \<and> H2V (field out) \<noteq> Inr (voltage out))
   \<and> (daq_ok d \<and> H2V H = Inr v \<and> v < V_OUT_MAX c \<and> v < V_IN_MAX c
        \<and> 0 < WRITE_ARRAY_LENGTH c
        \<longrightarrow> (\<exists>v_out. ramps (hw_trace (snd (snd (set_output_field d H (c, w)))))
                         = ramps (hw_trace w) @ [v_out]
                \<and> hd v_out = 0 \<and> H2V 0 \<noteq> Inr (hd v_out)))"
proof -
  have h: "H2V 0 = Inr (- 0.01268)"
    using H2V_small [of 0] by (simp add: H2V_value_def)
  from make_controller_Inr [OF assms] have
    out: "u_output_field c
            = Some \<lparr> timestamp = clock w0 (ticks w0 + 3), field = 0, voltage = 0 \<rparr>"
    by simp
  have ramp: "\<exists>v_out. ramps (hw_trace (snd (snd (set_output_field d H (c, w)))))
                         = ramps (hw_trace w) @ [v_out]
                \<and> hd v_out = 0 \<and> H2V 0 \<noteq> Inr (hd v_out)"
    if ok: "daq_ok d" and hv: "H2V H = Inr v" and v: "v < V_OUT_MAX c" "v < V_IN_MAX c"
      and n: "0 < WRITE_ARRAY_LENGTH c"
  proof -
    from n np_linspace_length [of "WRITE_ARRAY_LENGTH c" 0 v] obtain v_out where
      l: "np_linspace 0 v (WRITE_ARRAY_LENGTH c) = Inr v_out"
      by auto
    from np_linspace_hd [OF n l] have hd0: "hd v_out = 0" .
    from set_output_field_ok [OF ok out hv v, of v_out w] l obtain r c2 w2 where
      "set_output_field d H (c, w) = (r, c2, w2)"
      "hw_trace w2 = hw_trace w @ ao_session c v_out"
      by auto
    with hd0 h show ?thesis by (simp add: ramps_append)
  qed
  from h out ramp show ?thesis by simp
qed

text \<open>
  The default configuration, hall samples of 0 V, then a target of 100 Oe: the one ramp
  written starts at 0 V.
\<close>

theorem zero_record_off_calibration_witness:
  "make_controller default_config (quiet_daq [0]) (fresh_world (Writable None))
     = (Inr (),
        fst (snd (make_controller default_config (quiet_daq [0]) (fresh_world (Writable None)))),
        snd (snd (make_controller default_config (quiet_daq [0]) (fresh_world (Writable None)))))
   \<and> daq_ok (quiet_daq [])
   \<and> H2V 100 = Inr (H2V_value 100)
   \<and> H2V_value 100 < V_OUT_MAX
        (fst (snd (make_controller default_config (quiet_daq [0]) (fresh_world (Writable None)))))
   \<and> H2V_value 100 < V_IN_MAX
        (fst (snd (make_controller default_config (quiet_daq [0]) (fresh_world (Writable None)))))
   \<and> 0 < WRITE_ARRAY_LENGTH
        (fst (snd (make_controller default_config (quiet_daq [0]) (fresh_world (Writable None)))))
   \<and> map hd (ramps (hw_trace (snd (snd (set_output_field (quiet_daq []) 100
        (snd (make_controller default_config (quiet_daq [0])
               (fresh_world (Writable None))))))))) = [0]"
proof -
  let ?mk = "make_controller default_config (quiet_daq [0]) (fresh_world (Writable None))"
  have a: "daq_ok (quiet_daq [0])" "daq_ok (quiet_daq [])"
    by (simp_all add: daq_ok_def quiet_daq_def)
  have b: "log_ok default_config (fresh_world (Writable None))"
    by (simp add: log_ok_def fresh_world_def)
  have f: "abs_less (fl_map V2H_value (np_mean (samples (quiet_daq [0])))) 10"
    by (simp add: quiet_daq_def np_mean_def V2H_value_def)
  from make_controller_ok [OF a(1) b f] have mk: "?mk = (Inr (), fst (snd ?mk), snd (snd ?mk))"
    by auto
  have k: "V_OUT_MAX (fst (snd ?mk)) = 10" "V_IN_MAX (fst (snd ?mk)) = 10"
    "WRITE_ARRAY_LENGTH (fst (snd ?mk)) = 1000"
    using make_controller_Inr [OF mk] by (simp_all add: default_config_def py_int_def)
  have hv: "H2V 100 = Inr (H2V_value 100)"
    by (rule H2V_small) simp
  have v: "H2V_value 100 < 10" by (simp add: H2V_value_def)
  have tr: "ramps (hw_trace (snd (snd ?mk))) = []"
    using make_controller_ok [OF a(1) b f] by (auto simp: fresh_world_def)
  show ?thesis
    using zero_record_off_calibration [OF mk, where d = "quiet_daq []" and H = 100
        and v = "H2V_value 100"] a(2) k hv v tr mk
    by auto
qed
section \<open>Hardware sessions\<close>


lemma measured_field_keeps:
  "case measured_field d (c, w) of (r, c', w') \<Rightarrow>
     u_output_field c' = u_output_field c \<and> V_OUT_MAX c' = V_OUT_MAX c
     \<and> V_IN_MAX c' = V_IN_MAX c"
  by (simp add: measured_field_def thn_def daq_do_def now_def Let_def)

lemma measured_field_sessions:
  "case measured_field d (c, w) of (r, c', w') \<Rightarrow>
     open_sessions (hw_trace w') =
       open_sessions (hw_trace w) + (if raised_in_session r then 1 else 0)
     \<and> (\<forall>m. r = Inr m \<longrightarrow> hw_trace w' = hw_trace w @ ai_session c)"
  by (simp add: measured_field_def thn_def daq_do_def now_def Let_def open_sessions_append
        ai_session_def)

lemma set_output_field_sessions:
  "case set_output_field d H (c, w) of (r, c', w') \<Rightarrow>
     open_sessions (hw_trace w') =
       open_sessions (hw_trace w) + (if raised_in_session r then 1 else 0)
     \<and> (r = Inr () \<longrightarrow> (\<exists>v. hw_trace w' = hw_trace w @ ao_session c v))"
  by (auto simp: set_output_field_def thn_def daq_do_def now_def Let_def open_sessions_append
        output_voltage_def lift_result_def raise_def log_call_unfold output_field_def
        ao_session_def
      split: option.splits sum.splits dest: save_line_error np_linspace_error H2V_error)

text \<open>
  Claim C7, as stated, fails: the source calls \<^verbatim>\<open>task.stop()\<close> and
  \<^verbatim>\<open>task.close()\<close> in line, with no \<^verbatim>\<open>try/finally\<close> and no \<^verbatim>\<open>with\<close>. When
  \<^verbatim>\<open>task.read\<close> raises in \<^verbatim>\<open>measured_field\<close>, or \<^verbatim>\<open>task.write\<close> in the
  setter, the error propagates with the task created and never stopped or closed.
\<close>

theorem session_left_open:
  "fst (measured_field (faulty_daq ReadSamples [])
          (ready_controller default_config, fresh_world (Writable None)))
     = Inl (DaqError ReadSamples)
   \<and> hw_trace (snd (snd (measured_field (faulty_daq ReadSamples [])
          (ready_controller default_config, fresh_world (Writable None)))))
     = [TaskCreated, AiChanAdded ''Dev1/ai0'' (- 10) 10, ClockConfigured 1000]
   \<and> open_sessions (hw_trace (snd (snd (measured_field (faulty_daq ReadSamples [])
          (ready_controller default_config, fresh_world (Writable None)))))) = 1
   \<and> fst (set_output_field (faulty_daq WriteSamples []) 100
          (ready_controller default_config, fresh_world (Writable None)))
     = Inl (DaqError WriteSamples)
   \<and> open_sessions (hw_trace (snd (snd (set_output_field (faulty_daq WriteSamples []) 100
          (ready_controller default_config, fresh_world (Writable None)))))) = 1"
proof -
  have hv: "H2V 100 = Inr (H2V_value 100)" by (rule H2V_small) simp
  have v: "H2V_value 100 < 10" by (simp add: H2V_value_def)
  have k: "V_OUT_MAX (ready_controller default_config) = 10"
    "V_IN_MAX (ready_controller default_config) = 10"
    "WRITE_ARRAY_LENGTH (ready_controller default_config) = 1000"
    "DAQ_ADDRESS (ready_controller default_config) = ''Dev1''"
    "V_HALL_ADDRESS (ready_controller default_config) = ''ai0''"
    "V_IN_MIN (ready_controller default_config) = - 10"
    "READ_SAMPLE_CLOCK (ready_controller default_config) = 1000"
    "u_output_field (ready_controller default_config) = Some zero_output"
    by (simp_all add: ready_controller_def default_config_def py_int_def new_controller_def
          config.extend_def)
  have l: "np_linspace (voltage zero_output) (H2V_value 100) 1000
             = Inr (linear_ramp (voltage zero_output) (H2V_value 100) 1000)"
    using np_linspace_linear [of 1000 "voltage zero_output" "H2V_value 100"] by simp
  show ?thesis
    using v hv
    by (simp add: measured_field_def set_output_field_def thn_def daq_do_def faulty_daq_def
          fresh_world_def k l output_voltage_def output_field_def lift_result_def Let_def)
qed

text \<open>
  Claim C7, amended. For \<^verbatim>\<open>measured_field\<close> and for the setter, with any driver
  behaviour: when the operation returns, the session it opened has been stopped and
  closed (the trace gains a full session, ending in stop and close); when it raises
  before the task exists or after it is closed (a failed \<^verbatim>\<open>Task()\<close>, a refused
  voltage, a failing log call), no session is left open; when an error is raised between
  the creation of the task and its close, the operation ends with exactly that one
  session still open.
\<close>

theorem sessions_closed_unless_raised_inside:
  "(case measured_field d (c, w) of (r, c', w') \<Rightarrow>
      open_sessions (hw_trace w') =
        open_sessions (hw_trace w) + (if raised_in_session r then 1 else 0)
      \<and> (\<forall>m. r = Inr m \<longrightarrow> hw_trace w' = hw_trace w @ ai_session c))
   \<and> (case set_output_field d H (c, w) of (r, c', w') \<Rightarrow>
      open_sessions (hw_trace w') =
        open_sessions (hw_trace w) + (if raised_in_session r then 1 else 0)
      \<and> (r = Inr () \<longrightarrow> (\<exists>v. hw_trace w' = hw_trace w @ ao_session c v)))"
  using measured_field_sessions [where d = d and c = c and w = w]
    set_output_field_sessions [where d = d and H = H and c = c and w = w]
  by simp

text \<open>A read and a write that meet no error leave no session open.\<close>

theorem sessions_closed_unless_raised_inside_witness:
  "fst (measured_field (quiet_daq [0])
          (ready_controller default_config, fresh_world (Writable None)))
     = Inr \<lparr> m_timestamp = 0, m_field = Fl (V2H_value 0), hall_voltage = Fl 0 \<rparr>
   \<and> open_sessions (hw_trace (snd (snd (measured_field (quiet_daq [0])
          (ready_controller default_config, fresh_world (Writable None)))))) = 0
   \<and> fst (set_output_field (quiet_daq [0]) 100
          (ready_controller default_config, fresh_world (Writable None))) = Inr ()
   \<and> open_sessions (hw_trace (snd (snd (set_output_field (quiet_daq [0]) 100
          (ready_controller default_config, fresh_world (Writable None)))))) = 0"
proof -
  let ?s = "(ready_controller default_config, fresh_world (Writable None))"
  have a: "daq_ok (quiet_daq [0])"
    by (simp add: daq_ok_def quiet_daq_def)
  have m: "fst (measured_field (quiet_daq [0]) ?s)
     = Inr \<lparr> m_timestamp = 0, m_field = Fl (V2H_value 0), hall_voltage = Fl 0 \<rparr>"
    using measured_ok [OF a, where c = "ready_controller default_config"
        and w = "fresh_world (Writable None)"]
    by (simp add: Let_def fresh_world_def quiet_daq_def np_mean_def)
  have hv: "H2V 100 = Inr (H2V_value 100)" by (rule H2V_small) simp
  have v: "H2V_value 100 < 10" by (simp add: H2V_value_def)
  have k: "V_OUT_MAX (ready_controller default_config) = 10"
    "V_IN_MAX (ready_controller default_config) = 10"
    "WRITE_ARRAY_LENGTH (ready_controller default_config) = 1000"
    "u_output_field (ready_controller default_config) = Some zero_output"
    "save_log (ready_controller default_config)"
    by (simp_all add: ready_controller_def default_config_def py_int_def)
  have l: "np_linspace (voltage zero_output) (H2V_value 100) 1000
             = Inr (linear_ramp (voltage zero_output) (H2V_value 100) 1000)"
    using np_linspace_linear [of 1000 "voltage zero_output" "H2V_value 100"] by simp
  have s: "fst (set_output_field (quiet_daq [0]) 100 ?s) = Inr ()"
    using v hv
    by (simp add: set_output_field_def thn_def daq_do_def now_def Let_def daq_okD [OF a]
          output_voltage_def output_field_def lift_result_def k l log_call_unfold
          save_line_writable fresh_world_def)
  have t: "open_sessions (hw_trace (snd (snd (measured_field (quiet_daq [0]) ?s))))
             = open_sessions (hw_trace (fresh_world (Writable None)))
               + (if raised_in_session (fst (measured_field (quiet_daq [0]) ?s)) then 1 else 0)"
    "open_sessions (hw_trace (snd (snd (set_output_field (quiet_daq [0]) 100 ?s))))
             = open_sessions (hw_trace (fresh_world (Writable None)))
               + (if raised_in_session (fst (set_output_field (quiet_daq [0]) 100 ?s))
                  then 1 else 0)"
    using sessions_closed_unless_raised_inside [where d = "quiet_daq [0]" and H = 100
        and c = "ready_controller default_config" and w = "fresh_world (Writable None)"]
    by (simp_all split: prod.splits)
  show ?thesis
    using m s t by (simp add: fresh_world_def)
qed

section \<open>The bound on the output voltage\<close>


lemma set_output_field_inv:
  "voltage_inv c \<Longrightarrow> voltage_inv (fst (snd (set_output_field d H (c, w))))"
  by (auto simp: voltage_inv_def set_output_field_def thn_def daq_do_def now_def Let_def
        output_voltage_def lift_result_def raise_def log_call_unfold output_field_def
      split: option.splits sum.splits)

lemma perform_inv:
  assumes "voltage_inv (fst s)"
  shows "voltage_inv (fst (perform p s))"
proof (cases p)
  case (GetMeasuredField d)
  with assms show ?thesis
    using measured_field_keeps [where d = d and c = "fst s" and w = "snd s"]
    by (auto simp: voltage_inv_def split: prod.splits option.splits)
next
  case GetOutputField
  with assms show ?thesis by simp
next
  case (SetOutputField d H)
  with assms show ?thesis
    using set_output_field_inv [where c = "fst s" and d = d and H = H and w = "snd s"] by simp
qed

lemma perform_all_inv: "voltage_inv (fst s) \<Longrightarrow> voltage_inv (fst (perform_all ps s))"
  by (induction ps arbitrary: s) (simp_all add: perform_inv)

text \<open>
  Claim C5, as stated, fails: construction sets the output record to 0 V without
  comparing it with the configured maxima. With the output maximum configured to 0 V
  (an output range of -10 V to 0 V) construction succeeds, and the voltage of
  \<^verbatim>\<open>_output_field\<close>, 0, is not strictly below the output maximum.
\<close>

theorem zero_record_not_below_maximum:
  "fst (make_controller negative_range_config (quiet_daq [0]) (fresh_world (Writable None)))
     = Inr ()
   \<and> map_option voltage (u_output_field (fst (snd
        (make_controller negative_range_config (quiet_daq [0]) (fresh_world (Writable None))))))
     = Some 0
   \<and> V_OUT_MAX (fst (snd
        (make_controller negative_range_config (quiet_daq [0]) (fresh_world (Writable None)))))
     = 0
   \<and> \<not> voltage_inv (fst (snd
        (make_controller negative_range_config (quiet_daq [0]) (fresh_world (Writable None)))))"
proof -
  have a: "daq_ok (quiet_daq [0])"
    by (simp add: daq_ok_def quiet_daq_def)
  have b: "log_ok negative_range_config (fresh_world (Writable None))"
    by (simp add: log_ok_def fresh_world_def)
  have f: "abs_less (fl_map V2H_value (np_mean (samples (quiet_daq [0])))) 10"
    by (simp add: quiet_daq_def np_mean_def V2H_value_def)
  have k: "V_OUT_MAX negative_range_config = 0"
    by (simp add: negative_range_config_def)
  from make_controller_ok [OF a b f] show ?thesis
    by (auto simp: voltage_inv_def k)
qed

text \<open>
  Claim C5, amended. Reading the measured field, reading the output field and setting the
  output field each preserve the invariant that the voltage of \<^verbatim>\<open>_output_field\<close>,
  when there is one, lies strictly below the output maximum and the input maximum,
  whatever the driver and the log file do. Construction establishes it when both
  configured maxima are positive, as the defaults of 10 V are; it then holds in every
  state reached by any sequence of sets and reads. A failed construction leaves
  \<^verbatim>\<open>_output_field\<close> unset.
\<close>

theorem voltage_bound_invariant:
  "(voltage_inv c \<longrightarrow>
      voltage_inv (fst (snd (measured_field d (c, w))))
    \<and> voltage_inv (fst (snd (set_output_field d H (c, w))))
    \<and> voltage_inv (fst (perform_all ps (c, w))))
   \<and> (make_controller cfg dc wc = (Inr (), cn, wn) \<and> 0 < V_OUT_MAX cfg \<and> 0 < V_IN_MAX cfg
        \<longrightarrow> voltage_inv cn \<and> voltage_inv (fst (perform_all ps (cn, wn))))
   \<and> (\<forall>e. make_controller cfg dc wc = (Inl e, cn, wn) \<longrightarrow> u_output_field cn = None)"
proof -
  have pres: "voltage_inv (fst (snd (measured_field d (c, w))))
    \<and> voltage_inv (fst (snd (set_output_field d H (c, w))))
    \<and> voltage_inv (fst (perform_all ps (c, w)))" if "voltage_inv c"
    using that perform_inv [where s = "(c, w)" and p = "GetMeasuredField d"]
      set_output_field_inv [where c = c and d = d and H = H and w = w]
      perform_all_inv [where s = "(c, w)" and ps = ps]
    by simp
  have init: "voltage_inv cn \<and> voltage_inv (fst (perform_all ps (cn, wn)))"
    if mk: "make_controller cfg dc wc = (Inr (), cn, wn)"
      and pos: "0 < V_OUT_MAX cfg" "0 < V_IN_MAX cfg"
  proof -
    from make_controller_Inr [OF mk] pos have "voltage_inv cn"
      by (simp add: voltage_inv_def)
    then show ?thesis
      using perform_all_inv [where s = "(cn, wn)" and ps = ps] by simp
  qed
  have fail: "u_output_field cn = None" if "make_controller cfg dc wc = (Inl e, cn, wn)" for e
    using that
    by (auto simp: make_controller_def post_init_def thn_def measured_field_def daq_do_def
          now_def Let_def log_call_unfold raise_def
        split: if_splits sum.splits prod.splits)
  from pres init fail show ?thesis by blast
qed


text \<open>
  The default configuration, then an accepted set, a read, a get, a set on which the
  driver raises and a refused set.
\<close>

theorem voltage_bound_invariant_witness:
  "make_controller default_config (quiet_daq [0]) (fresh_world (Writable None))
     = (Inr (),
        fst (snd (make_controller default_config (quiet_daq [0]) (fresh_world (Writable None)))),
        snd (snd (make_controller default_config (quiet_daq [0]) (fresh_world (Writable None)))))
   \<and> 0 < V_OUT_MAX default_config \<and> 0 < V_IN_MAX default_config
   \<and> voltage_inv
        (fst (snd (make_controller default_config (quiet_daq [0]) (fresh_world (Writable None)))))
   \<and> voltage_inv (fst (perform_all
        [SetOutputField (quiet_daq []) 100, GetMeasuredField (quiet_daq [1]), GetOutputField,
         SetOutputField (faulty_daq WriteSamples []) 200, SetOutputField (quiet_daq []) 4000]
        (snd (make_controller default_config (quiet_daq [0]) (fresh_world (Writable None))))))"
proof -
  let ?mk = "make_controller default_config (quiet_daq [0]) (fresh_world (Writable None))"
  have a: "daq_ok (quiet_daq [0])"
    by (simp add: daq_ok_def quiet_daq_def)
  have b: "log_ok default_config (fresh_world (Writable None))"
    by (simp add: log_ok_def fresh_world_def)
  have f: "abs_less (fl_map V2H_value (np_mean (samples (quiet_daq [0])))) 10"
    by (simp add: quiet_daq_def np_mean_def V2H_value_def)
  from make_controller_ok [OF a b f] have mk: "?mk = (Inr (), fst (snd ?mk), snd (snd ?mk))"
    by auto
  have pos: "0 < V_OUT_MAX default_config" "0 < V_IN_MAX default_config"
    by (simp_all add: default_config_def)
  show ?thesis
    using mk pos voltage_bound_invariant [where cfg = default_config and dc = "quiet_daq [0]"
        and wc = "fresh_world (Writable None)" and cn = "fst (snd ?mk)"
        and wn = "snd (snd ?mk)"
        and ps = "[SetOutputField (quiet_daq []) 100, GetMeasuredField (quiet_daq [1]),
          GetOutputField, SetOutputField (faulty_daq WriteSamples []) 200,
          SetOutputField (quiet_daq []) 4000]"
        and c = "fst (snd ?mk)" and w = "snd (snd ?mk)"]
    by simp
qed

section \<open>The calibration polynomials\<close>




section \<open>The length of the ramp\<close>

text \<open>
  Claim C3 against the code: with the output clock configured to 50 kHz and everything
  else left at its default, \<open>int(rate * duration)\<close> is 500, yet the first ramp written
  after construction has 1000 samples. The field \<^verbatim>\<open>WRITE_ARRAY_LENGTH\<close> is computed
  once, in the class body, from the default clock and sweep time.
\<close>

theorem ramp_length_not_recomputed:
  "py_int (WRITE_SAMPLE_CLOCK half_rate_config * TIME_VOLTAGE_SWEEP half_rate_config) = 500
   \<and> fst (make_controller half_rate_config (quiet_daq [0]) (fresh_world (Writable None)))
       = Inr ()
   \<and> H2V 100 = Inr (H2V_value 100)
   \<and> H2V_value 100 < V_OUT_MAX half_rate_config
   \<and> H2V_value 100 < V_IN_MAX half_rate_config
   \<and> map length (ramps (hw_trace (snd (snd (set_output_field (quiet_daq []) 100
        (snd (make_controller half_rate_config (quiet_daq [0])
               (fresh_world (Writable None)))))))))
       = [1000]"
proof -
  have a: "daq_ok (quiet_daq [0])" "daq_ok (quiet_daq [])"
    by (simp_all add: daq_ok_def quiet_daq_def)
  have b: "log_ok half_rate_config (fresh_world (Writable None))"
    by (simp add: log_ok_def fresh_world_def)
  have f: "abs_less (fl_map V2H_value (np_mean (samples (quiet_daq [0])))) 10"
    by (simp add: quiet_daq_def np_mean_def V2H_value_def)
  have n: "py_int (WRITE_SAMPLE_CLOCK half_rate_config * TIME_VOLTAGE_SWEEP half_rate_config)
             = 500"
    by (simp add: half_rate_config_def default_config_def py_int_def)
  have k: "WRITE_ARRAY_LENGTH half_rate_config = 1000" "V_OUT_MAX half_rate_config = 10"
    "V_IN_MAX half_rate_config = 10"
    by (simp_all add: half_rate_config_def default_config_def py_int_def)
  have hv: "H2V 100 = Inr (H2V_value 100)"
    by (rule H2V_small) simp
  have v: "H2V_value 100 < 10"
    by (simp add: H2V_value_def)
  from make_controller_ok [OF a(1) b f] obtain c w1 where
    mk: "make_controller half_rate_config (quiet_daq [0]) (fresh_world (Writable None))
           = (Inr (), c, w1)"
    and out: "u_output_field c = Some \<lparr> timestamp = 3, field = 0, voltage = 0 \<rparr>"
    and cf: "WRITE_ARRAY_LENGTH c = 1000" "V_OUT_MAX c = 10" "V_IN_MAX c = 10"
    and tr: "ramps (hw_trace w1) = []"
    by (auto simp: k fresh_world_def ramps_append)
  have l: "np_linspace (voltage \<lparr> timestamp = 3, field = 0, voltage = 0 \<rparr>) (H2V_value 100)
             (WRITE_ARRAY_LENGTH c) = Inr (linear_ramp 0 (H2V_value 100) 1000)"
    using np_linspace_linear [of 1000 0 "H2V_value 100"] by (simp add: cf)
  from set_output_field_ok [OF a(2) out hv _ _ l, where w = w1] v obtain r c2 w2 where
    "set_output_field (quiet_daq []) 100 (c, w1) = (r, c2, w2)"
    "hw_trace w2 = hw_trace w1 @ ao_session c (linear_ramp 0 (H2V_value 100) 1000)"
    by (auto simp: cf)
  with mk tr n k v hv show ?thesis
    by (simp add: ramps_append)
qed

text \<open>
  Apart from where the length comes from, the setter does what is expected of it: on a
  valid target, with no driver call raising, it writes one ramp of
  \<^verbatim>\<open>WRITE_ARRAY_LENGTH\<close> samples, linearly spaced between the current and the target
  voltage when there are at least two, and stores the target.
\<close>

lemma setter_writes_one_ramp:
  assumes "daq_ok d" and "u_output_field c = Some out"
    and "H2V H = Inr v" and "v < V_OUT_MAX c" and "v < V_IN_MAX c"
    and "0 \<le> WRITE_ARRAY_LENGTH c"
  shows "case set_output_field d H (c, w) of (r, c', w') \<Rightarrow>
     map length (ramps (hw_trace w'))
       = map length (ramps (hw_trace w)) @ [nat (WRITE_ARRAY_LENGTH c)]
   \<and> (2 \<le> WRITE_ARRAY_LENGTH c \<longrightarrow>
        ramps (hw_trace w') = ramps (hw_trace w)
          @ [linear_ramp (voltage out) v (nat (WRITE_ARRAY_LENGTH c))]
      \<and> hd (linear_ramp (voltage out) v (nat (WRITE_ARRAY_LENGTH c))) = voltage out
      \<and> last (linear_ramp (voltage out) v (nat (WRITE_ARRAY_LENGTH c))) = v)
   \<and> u_output_field c'
       = Some \<lparr> timestamp = clock w (ticks w), field = H, voltage = v \<rparr>"
proof -
  from np_linspace_length [OF assms(6)] obtain v_out where
    l: "np_linspace (voltage out) v (WRITE_ARRAY_LENGTH c) = Inr v_out"
    and len: "length v_out = nat (WRITE_ARRAY_LENGTH c)"
    by blast
  from set_output_field_ok [OF assms(1-5) l, of w] obtain r w' where
    run: "set_output_field d H (c, w) =
            (r, c\<lparr>u_log := (u_log c)(clock w (Suc (ticks w)) \<mapsto> MsgFieldSet H),
                  u_output_field :=
                    Some \<lparr> timestamp = clock w (ticks w), field = H, voltage = v \<rparr>\<rparr>, w')"
    and tr: "hw_trace w' = hw_trace w @ ao_session c v_out"
    by blast
  have two: "2 \<le> WRITE_ARRAY_LENGTH c \<Longrightarrow>
      v_out = linear_ramp (voltage out) v (nat (WRITE_ARRAY_LENGTH c))"
    using l np_linspace_linear [of "WRITE_ARRAY_LENGTH c" "voltage out" v] by simp
  show ?thesis
    using run tr len two
    by (simp add: ramps_append linear_ramp_hd linear_ramp_last)
qed

section \<open>Construction\<close>

lemma log_call_fail:
  assumes "\<not> log_ok c w"
  shows "\<exists>e w'. log_call msg (c, w) =
            (Inl e, c\<lparr>u_log := (u_log c)(clock w (ticks w) \<mapsto> msg)\<rparr>, w')
     \<and> (e = FileNotFoundError \<or> e = PermissionError)
     \<and> hw_trace w' = hw_trace w \<and> fs w' = fs w"
proof -
  from assms have s: "save_log c" and nw: "\<not> writable (fs w)"
    by (simp_all add: log_ok_def split: if_splits)
  from nw show ?thesis
    by (cases "fs w") (simp_all add: log_call_unfold Let_def s save_line_def)
qed

lemma make_controller_fault:
  assumes "\<not> read_ok d"
  shows "\<exists>k w'. make_controller cfg d w = (Inl (DaqError k), new_controller cfg, w')
     \<and> clock w' = clock w \<and> ticks w' = ticks w \<and> fs w' = fs w \<and> console w' = console w
     \<and> ramps (hw_trace w') = ramps (hw_trace w)
     \<and> reads (hw_trace w') \<le> Suc (reads (hw_trace w))"
proof -
  from measured_fault [OF assms, of "new_controller cfg" w] obtain k w' where
    "measured_field d (new_controller cfg, w) = (Inl (DaqError k), new_controller cfg, w')"
    "clock w' = clock w" "ticks w' = ticks w" "fs w' = fs w" "console w' = console w"
    "ramps (hw_trace w') = ramps (hw_trace w)"
    "reads (hw_trace w') \<le> Suc (reads (hw_trace w))"
    by blast
  then show ?thesis
    by (simp add: make_controller_def post_init_def thn_def)
qed

text \<open>
  Claim C1, as stated, fails: \<^verbatim>\<open>__post_init__\<close> calls \<^verbatim>\<open>self.log\<close> before it sets
  \<^verbatim>\<open>_output_field\<close> and before it raises its \<^verbatim>\<open>ValueError\<close>, and a log call whose
  file cannot be written raises. With the default configuration, which saves the log: a
  field below 10 Oe and a directory that cannot be written give \<^verbatim>\<open>PermissionError\<close>
  and no \<^verbatim>\<open>_output_field\<close>; a field of 260 Oe and a missing directory give
  \<^verbatim>\<open>FileNotFoundError\<close>, not the error of the invalid initial state.
\<close>

theorem construction_log_failure:
  "abs_less (fl_map V2H_value (np_mean (samples (quiet_daq [0, 0])))) 10
   \<and> fst (make_controller default_config (quiet_daq [0, 0]) (fresh_world (ReadOnly None)))
       = Inl PermissionError
   \<and> u_output_field (fst (snd
        (make_controller default_config (quiet_daq [0, 0]) (fresh_world (ReadOnly None)))))
       = None
   \<and> \<not> abs_less (fl_map V2H_value (np_mean (samples (quiet_daq [1])))) 10
   \<and> fst (make_controller default_config (quiet_daq [1]) (fresh_world DirMissing))
       = Inl FileNotFoundError"
proof -
  have a: "read_ok (quiet_daq [0, 0])" "read_ok (quiet_daq [1])"
    by (simp_all add: read_ok_def quiet_daq_def)
  have f: "abs_less (fl_map V2H_value (np_mean (samples (quiet_daq [0, 0])))) 10"
    "\<not> abs_less (fl_map V2H_value (np_mean (samples (quiet_daq [1])))) 10"
    by (simp_all add: quiet_daq_def np_mean_def V2H_value_def)
  have k: "save_log default_config" "print_log default_config"
    by (simp_all add: default_config_def)
  show ?thesis
    using f
    by (simp add: make_controller_def post_init_def thn_def measured_read_ok [OF a(1)]
          measured_read_ok [OF a(2)] Let_def log_call_unfold k save_line_def fresh_world_def)
qed

text \<open>
  Claim C1, amended. Construction first performs a measured-field read and writes no
  ramp. When the read returns: if the magnitude of the measured field is below 10 Oe and
  the log call succeeds, construction succeeds and \<^verbatim>\<open>_output_field\<close> is the record
  with field 0 and voltage 0, stamped with the clock reading taken after the log call; if
  the magnitude is 10 Oe or more (or the field is not a number) and the log call
  succeeds, construction raises the \<^verbatim>\<open>ValueError\<close> of the invalid initial state; in
  either case a log call that fails raises its own I/O error instead. Whenever
  construction raises, also when a driver call of the read raises, no
  \<^verbatim>\<open>_output_field\<close> is established.
\<close>

theorem construct_checks_initial_field:
  "case make_controller cfg d w of (r, c', w') \<Rightarrow>
     ramps (hw_trace w') = ramps (hw_trace w)
   \<and> (read_ok d \<longrightarrow>
        hw_trace w' = hw_trace w @ ai_session cfg
      \<and> u_measured_field c' =
          Some \<lparr> m_timestamp = clock w (ticks w),
                 m_field = fl_map V2H_value (np_mean (samples d)),
                 hall_voltage = np_mean (samples d) \<rparr>
      \<and> (if abs_less (fl_map V2H_value (np_mean (samples d))) 10
         then (log_ok cfg w \<longrightarrow>
                 r = Inr ()
               \<and> u_output_field c' =
                   Some \<lparr> timestamp = clock w (ticks w + 3), field = 0, voltage = 0 \<rparr>)
            \<and> (\<not> log_ok cfg w \<longrightarrow>
                 (r = Inl FileNotFoundError \<or> r = Inl PermissionError)
               \<and> u_output_field c' = None)
            \<and> u_log c' = [clock w (ticks w + 1) \<mapsto> MsgInitZero]
         else (log_ok cfg w \<longrightarrow>
                 r = Inl (ValueError ''Initial magnetic field is not zero.''))
            \<and> (\<not> log_ok cfg w \<longrightarrow>
                 r = Inl FileNotFoundError \<or> r = Inl PermissionError)
            \<and> u_output_field c' = None
            \<and> u_log c' = [clock w (ticks w + 1) \<mapsto> MsgInitNotZero]))
   \<and> (\<not> read_ok d \<longrightarrow> (\<exists>k. r = Inl (DaqError k)) \<and> u_output_field c' = None)"
proof (cases "read_ok d")
  case False
  with make_controller_fault [OF False, of cfg w] show ?thesis
    by auto
next
  case True
  let ?F = "fl_map V2H_value (np_mean (samples d))"
  let ?m = "\<lparr> m_timestamp = clock w (ticks w), m_field = ?F,
              hall_voltage = np_mean (samples d) \<rparr>"
  let ?c1 = "(new_controller cfg)\<lparr>u_measured_field := Some ?m\<rparr>"
  let ?w1 = "w\<lparr>hw_trace := hw_trace w @ ai_session cfg, ticks := Suc (ticks w)\<rparr>"
  have m: "measured_field d (new_controller cfg, w) = (Inr ?m, ?c1, ?w1)"
    using measured_read_ok [OF True, of "new_controller cfg" w] by (simp add: Let_def)
  have lk: "log_ok ?c1 ?w1 = log_ok cfg w"
    by (simp add: log_ok_def)
  show ?thesis
  proof (cases "log_ok cfg w")
    case ok: True
    then have lok: "log_ok ?c1 ?w1" by (simp add: lk)
    show ?thesis
    proof (cases "abs_less ?F 10")
      case True
      from log_call_ok [OF lok, of MsgInitZero] obtain w2 where
        "log_call MsgInitZero (?c1, ?w1) =
           (Inr (), ?c1\<lparr>u_log := (u_log ?c1)(clock ?w1 (ticks ?w1) \<mapsto> MsgInitZero)\<rparr>, w2)"
        "hw_trace w2 = hw_trace ?w1" "clock w2 = clock ?w1"
        "ticks w2 = Suc (Suc (ticks ?w1))"
        by blast
      with True m ok \<open>read_ok d\<close> show ?thesis
        by (simp add: make_controller_def post_init_def thn_def now_def ramps_append
              numeral_3_eq_3)
    next
      case False
      from log_call_ok [OF lok, of MsgInitNotZero] obtain w2 where
        "log_call MsgInitNotZero (?c1, ?w1) =
           (Inr (),
            ?c1\<lparr>u_log := (u_log ?c1)(clock ?w1 (ticks ?w1) \<mapsto> MsgInitNotZero)\<rparr>, w2)"
        "hw_trace w2 = hw_trace ?w1"
        by blast
      with False m ok \<open>read_ok d\<close> show ?thesis
        by (simp add: make_controller_def post_init_def thn_def raise_def ramps_append)
    qed
  next
    case bad: False
    then have nlok: "\<not> log_ok ?c1 ?w1" by (simp add: lk)
    show ?thesis
    proof (cases "abs_less ?F 10")
      case True
      from log_call_fail [OF nlok, of MsgInitZero] obtain e w2 where
        "log_call MsgInitZero (?c1, ?w1) =
           (Inl e, ?c1\<lparr>u_log := (u_log ?c1)(clock ?w1 (ticks ?w1) \<mapsto> MsgInitZero)\<rparr>, w2)"
        "e = FileNotFoundError \<or> e = PermissionError" "hw_trace w2 = hw_trace ?w1"
        by blast
      with True m bad \<open>read_ok d\<close> show ?thesis
        by (auto simp add: make_controller_def post_init_def thn_def ramps_append)
    next
      case False
      from log_call_fail [OF nlok, of MsgInitNotZero] obtain e w2 where
        "log_call MsgInitNotZero (?c1, ?w1) =
           (Inl e,
            ?c1\<lparr>u_log := (u_log ?c1)(clock ?w1 (ticks ?w1) \<mapsto> MsgInitNotZero)\<rparr>, w2)"
        "e = FileNotFoundError \<or> e = PermissionError" "hw_trace w2 = hw_trace ?w1"
        by blast
      with False m bad \<open>read_ok d\<close> show ?thesis
        by (auto simp add: make_controller_def post_init_def thn_def ramps_append)
    qed
  qed
qed

text \<open>
  With the default configuration: hall samples of 0 V and a writable log give a field of
  -0.05665 Oe and a controller; a hall sample of 1 V gives a field above 260 Oe and the
  error of the invalid initial state; with a directory that cannot be written the same
  samples of 0 V give \<^verbatim>\<open>PermissionError\<close>; a read that raises gives the driver's
  error.
\<close>

theorem construct_checks_initial_field_witness:
  "read_ok (quiet_daq [0, 0]) \<and> log_ok default_config (fresh_world (Writable None))
   \<and> abs_less (fl_map V2H_value (np_mean (samples (quiet_daq [0, 0])))) 10
   \<and> fst (make_controller default_config (quiet_daq [0, 0]) (fresh_world (Writable None)))
       = Inr ()
   \<and> u_output_field
       (fst (snd (make_controller default_config (quiet_daq [0, 0]) (fresh_world (Writable None)))))
       = Some \<lparr> timestamp = 3, field = 0, voltage = 0 \<rparr>
   \<and> read_ok (quiet_daq [1])
   \<and> \<not> abs_less (fl_map V2H_value (np_mean (samples (quiet_daq [1])))) 10
   \<and> fst (make_controller default_config (quiet_daq [1]) (fresh_world (Writable None)))
       = Inl (ValueError ''Initial magnetic field is not zero.'')
   \<and> u_output_field
       (fst (snd (make_controller default_config (quiet_daq [1]) (fresh_world (Writable None)))))
       = None
   \<and> \<not> log_ok default_config (fresh_world (ReadOnly None))
   \<and> fst (make_controller default_config (quiet_daq [0, 0]) (fresh_world (ReadOnly None)))
       \<in> {Inl FileNotFoundError, Inl PermissionError}
   \<and> \<not> read_ok (faulty_daq ReadSamples [])
   \<and> u_output_field
       (fst (snd (make_controller default_config (faulty_daq ReadSamples [])
          (fresh_world (Writable None)))))
       = None"
proof -
  have a: "read_ok (quiet_daq [0, 0])" "read_ok (quiet_daq [1])"
    "\<not> read_ok (faulty_daq ReadSamples [])"
    by (simp_all add: read_ok_def quiet_daq_def faulty_daq_def)
  have b: "log_ok default_config (fresh_world (Writable None))"
    "\<not> log_ok default_config (fresh_world (ReadOnly None))"
    by (simp_all add: log_ok_def default_config_def fresh_world_def)
  have f: "abs_less (fl_map V2H_value (np_mean (samples (quiet_daq [0, 0])))) 10"
    "\<not> abs_less (fl_map V2H_value (np_mean (samples (quiet_daq [1])))) 10"
    by (simp_all add: quiet_daq_def np_mean_def V2H_value_def)
  show ?thesis
    using a b f
      construct_checks_initial_field [where cfg = default_config and d = "quiet_daq [0, 0]"
        and w = "fresh_world (Writable None)"]
      construct_checks_initial_field [where cfg = default_config and d = "quiet_daq [1]"
        and w = "fresh_world (Writable None)"]
      construct_checks_initial_field [where cfg = default_config and d = "quiet_daq [0, 0]"
        and w = "fresh_world (ReadOnly None)"]
      construct_checks_initial_field [where cfg = default_config
        and d = "faulty_daq ReadSamples []" and w = "fresh_world (Writable None)"]
    by (simp add: fresh_world_def split: prod.splits)
qed

section \<open>What a construction attempt leaves behind\<close>

text \<open>
  Claim C10, as stated, fails: an attempt in which the driver raises leaves before the
  measurement is stored and before any log call. When \<^verbatim>\<open>nidaqmx.Task()\<close> raises, the
  object and the world are exactly as before the attempt; when \<^verbatim>\<open>task.read\<close>
  raises, no read has been made, \<^verbatim>\<open>_measured_field\<close> is unset and the log is empty.
\<close>

theorem construction_read_failure:
  "make_controller default_config (faulty_daq CreateTask []) (fresh_world (Writable None))
     = (Inl (DaqError CreateTask), new_controller default_config, fresh_world (Writable None))
   \<and> fst (make_controller default_config (faulty_daq ReadSamples [])
        (fresh_world (Writable None)))
     = Inl (DaqError ReadSamples)
   \<and> reads (hw_trace (snd (snd (make_controller default_config (faulty_daq ReadSamples [])
        (fresh_world (Writable None)))))) = 0
   \<and> u_measured_field (fst (snd (make_controller default_config (faulty_daq ReadSamples [])
        (fresh_world (Writable None))))) = None
   \<and> u_log (fst (snd (make_controller default_config (faulty_daq ReadSamples [])
        (fresh_world (Writable None))))) = Map.empty"
  by (simp add: make_controller_def post_init_def thn_def measured_field_def daq_do_def
        faulty_daq_def fresh_world_def)

text \<open>
  Claim C10, amended. Every construction attempt whose read session meets no driver
  error, including one that fails the 10 Oe check, makes exactly one hardware read, sets
  \<^verbatim>\<open>_measured_field\<close> to the measurement and records one entry in the in-memory log
  before it returns or raises; an attempt that fails the 10 Oe check therefore leaves an
  object that differs from a fresh one in both fields. An attempt in which a driver call
  of the read session raises propagates that error with the object as fresh as before:
  \<^verbatim>\<open>_measured_field\<close> unset, the log empty, the clock not read, the log file and the
  console untouched, and at most one read made.
\<close>

theorem construction_attempt_effects:
  "case make_controller cfg d w of (r, c', w') \<Rightarrow>
     (read_ok d \<longrightarrow>
        reads (hw_trace w') = Suc (reads (hw_trace w))
      \<and> u_measured_field c' =
          Some \<lparr> m_timestamp = clock w (ticks w),
                 m_field = fl_map V2H_value (np_mean (samples d)),
                 hall_voltage = np_mean (samples d) \<rparr>
      \<and> u_log c' = [clock w (ticks w + 1) \<mapsto>
           (if abs_less (fl_map V2H_value (np_mean (samples d))) 10
            then MsgInitZero else MsgInitNotZero)]
      \<and> (\<not> abs_less (fl_map V2H_value (np_mean (samples d))) 10 \<longrightarrow>
           (\<exists>e. r = Inl e)
           \<and> u_measured_field c' \<noteq> u_measured_field (new_controller cfg)
           \<and> u_log c' \<noteq> u_log (new_controller cfg)))
   \<and> (\<not> read_ok d \<longrightarrow>
        (\<exists>k. r = Inl (DaqError k))
      \<and> c' = new_controller cfg
      \<and> reads (hw_trace w') \<le> Suc (reads (hw_trace w))
      \<and> ticks w' = ticks w \<and> fs w' = fs w \<and> console w' = console w)"
proof (cases "read_ok d")
  case False
  with make_controller_fault [OF False, of cfg w] show ?thesis
    by auto
next
  case True
  let ?m = "\<lparr> m_timestamp = clock w (ticks w),
              m_field = fl_map V2H_value (np_mean (samples d)),
              hall_voltage = np_mean (samples d) \<rparr>"
  let ?c1 = "(new_controller cfg)\<lparr>u_measured_field := Some ?m\<rparr>"
  let ?w1 = "w\<lparr>hw_trace := hw_trace w @ ai_session cfg, ticks := Suc (ticks w)\<rparr>"
  have m: "measured_field d (new_controller cfg, w) = (Inr ?m, ?c1, ?w1)"
    using measured_read_ok [OF True, of "new_controller cfg" w] by (simp add: Let_def)
  have rd: "reads (hw_trace w @ ai_session cfg) = Suc (reads (hw_trace w))"
    by (simp add: reads_append ai_session_def)
  show ?thesis
  proof (cases "abs_less (fl_map V2H_value (np_mean (samples d))) 10")
    case less: True
    from log_call_result [of MsgInitZero ?c1 ?w1] obtain r w2 where
      "log_call MsgInitZero (?c1, ?w1) =
         (r, ?c1\<lparr>u_log := (u_log ?c1)(clock ?w1 (ticks ?w1) \<mapsto> MsgInitZero)\<rparr>, w2)"
      "hw_trace w2 = hw_trace ?w1"
      by blast
    with less m rd True show ?thesis
      by (cases r) (simp_all add: make_controller_def post_init_def thn_def now_def)
  next
    case notless: False
    from log_call_result [of MsgInitNotZero ?c1 ?w1] obtain r w2 where
      "log_call MsgInitNotZero (?c1, ?w1) =
         (r, ?c1\<lparr>u_log := (u_log ?c1)(clock ?w1 (ticks ?w1) \<mapsto> MsgInitNotZero)\<rparr>, w2)"
      "hw_trace w2 = hw_trace ?w1"
      by blast
    with notless m rd True show ?thesis
      by (cases r) (simp_all add: make_controller_def post_init_def thn_def raise_def)
  qed
qed

text \<open>
  The default configuration: a hall sample of 1 V, where the attempt raises having made
  one read and one log entry; and a driver that raises in \<^verbatim>\<open>task.read\<close>, where the
  attempt leaves a fresh object.
\<close>

theorem construction_attempt_effects_witness:
  "read_ok (quiet_daq [1])
   \<and> \<not> abs_less (fl_map V2H_value (np_mean (samples (quiet_daq [1])))) 10
   \<and> fst (make_controller default_config (quiet_daq [1]) (fresh_world (Writable None)))
       = Inl (ValueError ''Initial magnetic field is not zero.'')
   \<and> reads (hw_trace (snd (snd
        (make_controller default_config (quiet_daq [1]) (fresh_world (Writable None)))))) = 1
   \<and> u_log (fst (snd
        (make_controller default_config (quiet_daq [1]) (fresh_world (Writable None)))))
       = [1 \<mapsto> MsgInitNotZero]
   \<and> \<not> read_ok (faulty_daq ReadSamples [])
   \<and> fst (snd (make_controller default_config (faulty_daq ReadSamples [])
        (fresh_world (Writable None))))
       = new_controller default_config"
proof -
  have a: "read_ok (quiet_daq [1])" "\<not> read_ok (faulty_daq ReadSamples [])"
    by (simp_all add: read_ok_def quiet_daq_def faulty_daq_def)
  have b: "\<not> abs_less (fl_map V2H_value (np_mean (samples (quiet_daq [1])))) 10"
    by (simp add: quiet_daq_def np_mean_def V2H_value_def)
  have c: "fst (make_controller default_config (quiet_daq [1]) (fresh_world (Writable None)))
       = Inl (ValueError ''Initial magnetic field is not zero.'')"
    using b
    by (simp add: make_controller_def post_init_def thn_def measured_read_ok [OF a(1)] Let_def
          log_call_unfold fresh_world_def default_config_def save_line_writable raise_def)
  show ?thesis
    using a b c
      construction_attempt_effects [where cfg = default_config and d = "quiet_daq [1]"
        and w = "fresh_world (Writable None)"]
      construction_attempt_effects [where cfg = default_config
        and d = "faulty_daq ReadSamples []" and w = "fresh_world (Writable None)"]
    by (simp add: fresh_world_def split: prod.splits)
qed

section \<open>Validation of the target voltage\<close>







end
